theory Spec2Isabelle
  imports Complex_Main
begin

section \<open>The activation engine of the Restricted Boltzmann Machine (rbm.inl)\<close>

subsection \<open>Data model\<close>

text \<open>
  The unit kinds a layer can be configured with. The enumeration \<open>unit_type\<close> is
  declared outside the two source files; its six tags are the ones the specification
  lists and \<open>rbm.inl\<close> compares against.
\<close>

datatype unit_type = BINARY | GAUSSIAN | RELU | RELU1 | RELU6 | SOFTMAX

text \<open>
  The compile-time description \<open>Desc\<close> of a model: the four static members
  \<open>num_visible\<close>, \<open>num_hidden\<close>, \<open>visible_unit\<close>, \<open>hidden_unit\<close> of
  \<open>struct rbm\<close>.
\<close>

record desc =
  num_visible :: nat
  num_hidden :: nat
  visible_unit :: unit_type
  hidden_unit :: unit_type

text \<open>
  The learned parameters of \<open>struct rbm\<close>: the weight matrix \<open>w\<close> (one row per
  visible unit, \<open>num_hidden\<close> entries each), the hidden biases \<open>b\<close> and the visible
  biases \<open>c\<close>. The element type \<open>weight\<close> is the type parameter \<open>'a\<close>.
\<close>

record 'a rbm =
  rbm_w :: "'a list list"
  rbm_b :: "'a list"
  rbm_c :: "'a list"

text \<open>
  The tensor library. Every vector operation \<open>rbm.inl\<close> calls lives in \<open>etl/etl.hpp\<close>,
  which is not among the source files, so the operations are parameters of the
  embedding: one field per library function the activation steps call, under the
  library's name. The operations that draw random numbers read and advance the
  process-wide random engine, which is threaded through them as a value of type
  \<open>'g\<close>. Scalar arguments are the source's floating-point literals
  (\<open>0.0\<close>, \<open>1.0\<close>, \<open>6.0\<close>). \<open>isfinite\<close> is the element test of the stability guard.

  \<open>auto_vmmul\<close> is called in two shapes: vector by matrix (hidden step) and matrix by
  vector (visible step). Its third argument is a scratch buffer that receives the
  product; no caller reads the buffer afterwards, so the operation is modelled by the
  product it returns.
\<close>

record ('a, 'g) etl =
  isfinite :: "'a \<Rightarrow> bool"
  plus_v :: "'a list \<Rightarrow> 'a list \<Rightarrow> 'a list"
  auto_vmmul_vm :: "'a list \<Rightarrow> 'a list list \<Rightarrow> 'a list"
  auto_vmmul_mv :: "'a list list \<Rightarrow> 'a list \<Rightarrow> 'a list"
  sigmoid :: "'a list \<Rightarrow> 'a list"
  max_v :: "'a list \<Rightarrow> real \<Rightarrow> 'a list"
  min_v :: "'a list \<Rightarrow> real \<Rightarrow> 'a list"
  softmax :: "'a list \<Rightarrow> 'a list"
  one_if_max :: "'a list \<Rightarrow> 'a list"
  bernoulli :: "'g \<Rightarrow> 'a list \<Rightarrow> 'a list \<times> 'g"
  logistic_noise :: "'g \<Rightarrow> 'a list \<Rightarrow> 'a list \<times> 'g"
  ranged_noise :: "'g \<Rightarrow> 'a list \<Rightarrow> real \<Rightarrow> 'a list \<times> 'g"

subsection \<open>Stability guard\<close>

text \<open>The only way an activation step can fail: the assertion of the guard.\<close>

datatype error = NaN_Check_Failed

text \<open>
  Modelled from the spec: \<open>nan_check_deep\<close> is declared in \<open>checks.hpp\<close>, which is
  not among the source files. Section 4.2 of the specification: it scans every element
  of the tensor and fails fast if any element is NaN or infinite.
\<close>

definition nan_check_deep :: "('a, 'g) etl \<Rightarrow> 'a list \<Rightarrow> error + unit" where
  "nan_check_deep E xs = (if list_all (isfinite E) xs then Inr () else Inl NaN_Check_Failed)"

subsection \<open>Hidden activation step\<close>

text \<open>
  \<open>rbm::activate_hidden\<close>, the static overload with bias, weights and scratch buffer
  (lines 102 to 152). The template flags \<open>P\<close> and \<open>S\<close> are the first two boolean
  arguments. The output references \<open>h_a\<close> and \<open>h_s\<close> come in with their prior contents
  and are returned with their final contents, together with the random engine. The
  fourth vector argument (the visible sample) is unnamed in the source.
\<close>

definition activate_hidden ::
  "('a, 'g) etl \<Rightarrow> desc \<Rightarrow> bool \<Rightarrow> bool \<Rightarrow> 'a list \<Rightarrow> 'a list \<Rightarrow> 'a list \<Rightarrow> 'a list \<Rightarrow>
     'a list \<Rightarrow> 'a list list \<Rightarrow> 'g \<Rightarrow> error + ('a list \<times> 'a list \<times> 'g)" where
  "activate_hidden E d P S h_a h_s v_a v_s b w g =
    (let (h_a1, h_s1, g1) =
       (if P then
          (let h_a' =
             (if hidden_unit d = BINARY then sigmoid E (plus_v E b (auto_vmmul_vm E v_a w))
              else if hidden_unit d = RELU then max_v E (plus_v E b (auto_vmmul_vm E v_a w)) 0
              else if hidden_unit d = RELU6 then
                min_v E (max_v E (plus_v E b (auto_vmmul_vm E v_a w)) 0) 6
              else if hidden_unit d = RELU1 then
                min_v E (max_v E (plus_v E b (auto_vmmul_vm E v_a w)) 0) 1
              else if hidden_unit d = SOFTMAX then softmax E (plus_v E b (auto_vmmul_vm E v_a w))
              else h_a)
           in if S then
                (let (h_s', g') =
                   (if hidden_unit d = BINARY then bernoulli E g h_a'
                    else if hidden_unit d = RELU then logistic_noise E g h_a'
                    else if hidden_unit d = RELU6 then ranged_noise E g h_a' 6
                    else if hidden_unit d = RELU1 then ranged_noise E g h_a' 1
                    else if hidden_unit d = SOFTMAX then (one_if_max E h_a', g)
                    else (h_s, g))
                 in (h_a', h_s', g'))
              else (h_a', h_s, g))
        else if S then
          (let (h_s', g') =
             (if hidden_unit d = BINARY then
                bernoulli E g (sigmoid E (plus_v E b (auto_vmmul_vm E v_a w)))
              else if hidden_unit d = RELU then
                logistic_noise E g (max_v E (plus_v E b (auto_vmmul_vm E v_a w)) 0)
              else if hidden_unit d = RELU6 then
                ranged_noise E g (min_v E (max_v E (plus_v E b (auto_vmmul_vm E v_a w)) 0) 6) 6
              else if hidden_unit d = RELU1 then
                ranged_noise E g (min_v E (max_v E (plus_v E b (auto_vmmul_vm E v_a w)) 0) 1) 1
              else if hidden_unit d = SOFTMAX then
                (one_if_max E (softmax E (plus_v E b (auto_vmmul_vm E v_a w))), g)
              else (h_s, g))
           in (h_a, h_s', g'))
        else (h_a, h_s, g))
     in case nan_check_deep E h_a1 of
          Inl e \<Rightarrow> Inl e
        | Inr _ \<Rightarrow> (case nan_check_deep E h_s1 of
                     Inl e \<Rightarrow> Inl e
                   | Inr _ \<Rightarrow> Inr (h_a1, h_s1, g1)))"

text \<open>
  The member overload of lines 85 to 88 passes the model's own \<open>b\<close> and \<open>w\<close>; the
  overload of lines 95 to 100 supplies the static scratch matrix. Both forward the
  flags unchanged, and both default them to \<open>true\<close>.
\<close>

definition activate_hidden_member ::
  "('a, 'g) etl \<Rightarrow> desc \<Rightarrow> 'a rbm \<Rightarrow> bool \<Rightarrow> bool \<Rightarrow> 'a list \<Rightarrow> 'a list \<Rightarrow> 'a list \<Rightarrow> 'a list \<Rightarrow>
     'g \<Rightarrow> error + ('a list \<times> 'a list \<times> 'g)" where
  "activate_hidden_member E d m P S h_a h_s v_a v_s g =
     activate_hidden E d P S h_a h_s v_a v_s (rbm_b m) (rbm_w m) g"

subsection \<open>Visible activation step\<close>

text \<open>
  \<open>rbm::activate_visible\<close>, the static overload of lines 168 to 194. The first
  argument (the hidden activation) is unnamed in the source. The two blocks guarded by
  \<open>P\<close> and \<open>S\<close> are independent of each other.
\<close>

definition activate_visible ::
  "('a, 'g) etl \<Rightarrow> desc \<Rightarrow> bool \<Rightarrow> bool \<Rightarrow> 'a list \<Rightarrow> 'a list \<Rightarrow> 'a list \<Rightarrow> 'a list \<Rightarrow>
     'a list \<Rightarrow> 'a list list \<Rightarrow> 'g \<Rightarrow> error + ('a list \<times> 'a list \<times> 'g)" where
  "activate_visible E d P S h_a h_s v_a v_s c w g =
    (let v_a1 =
       (if P then
          (if visible_unit d = BINARY then sigmoid E (plus_v E c (auto_vmmul_mv E w h_s))
           else if visible_unit d = GAUSSIAN then plus_v E c (auto_vmmul_mv E w h_s)
           else if visible_unit d = RELU then max_v E (plus_v E c (auto_vmmul_mv E w h_s)) 0
           else v_a)
        else v_a);
         (v_s1, g1) =
       (if S then
          (if visible_unit d = BINARY then
             bernoulli E g (sigmoid E (plus_v E c (auto_vmmul_mv E w h_s)))
           else if visible_unit d = GAUSSIAN then (plus_v E c (auto_vmmul_mv E w h_s), g)
           else if visible_unit d = RELU then
             logistic_noise E g (max_v E (plus_v E c (auto_vmmul_mv E w h_s)) 0)
           else (v_s, g))
        else (v_s, g))
     in case nan_check_deep E v_a1 of
          Inl e \<Rightarrow> Inl e
        | Inr _ \<Rightarrow> (case nan_check_deep E v_s1 of
                     Inl e \<Rightarrow> Inl e
                   | Inr _ \<Rightarrow> Inr (v_a1, v_s1, g1)))"

definition activate_visible_member ::
  "('a, 'g) etl \<Rightarrow> desc \<Rightarrow> 'a rbm \<Rightarrow> bool \<Rightarrow> bool \<Rightarrow> 'a list \<Rightarrow> 'a list \<Rightarrow> 'a list \<Rightarrow> 'a list \<Rightarrow>
     'g \<Rightarrow> error + ('a list \<times> 'a list \<times> 'g)" where
  "activate_visible_member E d m P S h_a h_s v_a v_s g =
     activate_visible E d P S h_a h_s v_a v_s (rbm_c m) (rbm_w m) g"

subsection \<open>Inference facade\<close>

text \<open>
  \<open>rbm::activation_probabilities\<close> with an output argument (lines 196 to 203). The
  input is copied into a vector of weights (\<open>conv\<close> is the element conversion of that
  copy). \<open>next_s\<close> is a function-local static vector: it keeps its contents between
  calls, so it is part of the state passed in and returned. The call to
  \<open>activate_hidden\<close> names no template arguments, so both flags take their default
  \<open>true\<close>; the copied input is passed as visible activation and as visible sample.
\<close>

definition activation_probabilities ::
  "('a, 'g) etl \<Rightarrow> desc \<Rightarrow> 'a rbm \<Rightarrow> ('s \<Rightarrow> 'a) \<Rightarrow> 's list \<Rightarrow> 'a list \<Rightarrow> 'a list \<Rightarrow> 'g \<Rightarrow>
     error + ('a list \<times> 'a list \<times> 'g)" where
  "activation_probabilities E d m conv item_data result next_s g =
     (let item = map conv item_data
      in activate_hidden_member E d m True True result next_s item item g)"

text \<open>
  The overload of lines 205 to 212 allocates the result vector (\<open>fresh\<close> stands for the
  contents of the new allocation), fills it through the overload above and returns it.
\<close>

definition activation_probabilities_ret ::
  "('a, 'g) etl \<Rightarrow> desc \<Rightarrow> 'a rbm \<Rightarrow> ('s \<Rightarrow> 'a) \<Rightarrow> 's list \<Rightarrow> 'a list \<Rightarrow> 'a list \<Rightarrow> 'g \<Rightarrow>
     error + ('a list \<times> 'a list \<times> 'g)" where
  "activation_probabilities_ret E d m conv item_data fresh next_s g =
     activation_probabilities E d m conv item_data fresh next_s g"

subsection \<open>A reference instance of the tensor library\<close>

text \<open>
  The element type \<open>weight\<close> of the source is \<open>float\<close> or \<open>double\<close>. The reference
  instance keeps the three kinds of value the stability guard tells apart: finite
  numbers, the two infinities and NaN. Finite values are exact reals: rounding,
  overflow and signed zeros are not represented.
\<close>

datatype weight = Finite real | PInf | NInf | NaN

fun wfinite :: "weight \<Rightarrow> bool" where
  "wfinite (Finite x) = True"
| "wfinite _ = False"

text \<open>
  Scalar arithmetic and comparison on \<open>weight\<close>. On finite operands they are the real
  operations; on the special values they follow IEEE 754 (an operation with NaN gives
  NaN, a comparison with NaN is false, \<open>inf - inf\<close>, \<open>0 * inf\<close>, \<open>0 / 0\<close> and
  \<open>inf / inf\<close> give NaN).
\<close>

fun wsign :: "weight \<Rightarrow> int" where
  "wsign (Finite x) = (if x < 0 then - 1 else if x = 0 then 0 else 1)"
| "wsign PInf = 1"
| "wsign NInf = - 1"
| "wsign NaN = 0"

definition winf :: "int \<Rightarrow> weight" where
  "winf s = (if s = 0 then NaN else if 0 < s then PInf else NInf)"

fun wadd :: "weight \<Rightarrow> weight \<Rightarrow> weight" where
  "wadd (Finite x) (Finite y) = Finite (x + y)"
| "wadd NaN _ = NaN"
| "wadd _ NaN = NaN"
| "wadd PInf NInf = NaN"
| "wadd NInf PInf = NaN"
| "wadd PInf _ = PInf"
| "wadd _ PInf = PInf"
| "wadd NInf _ = NInf"
| "wadd _ NInf = NInf"

fun wneg :: "weight \<Rightarrow> weight" where
  "wneg (Finite x) = Finite (- x)"
| "wneg PInf = NInf"
| "wneg NInf = PInf"
| "wneg NaN = NaN"

fun wmul :: "weight \<Rightarrow> weight \<Rightarrow> weight" where
  "wmul (Finite x) (Finite y) = Finite (x * y)"
| "wmul NaN _ = NaN"
| "wmul _ NaN = NaN"
| "wmul a b = winf (wsign a * wsign b)"

fun wdiv :: "weight \<Rightarrow> weight \<Rightarrow> weight" where
  "wdiv (Finite x) (Finite y) = (if y = 0 then winf (wsign (Finite x)) else Finite (x / y))"
| "wdiv NaN _ = NaN"
| "wdiv _ NaN = NaN"
| "wdiv (Finite x) _ = Finite 0"
| "wdiv a (Finite y) = winf (wsign a * (if y < 0 then - 1 else 1))"
| "wdiv _ _ = NaN"

fun wexp :: "weight \<Rightarrow> weight" where
  "wexp (Finite x) = Finite (exp x)"
| "wexp PInf = PInf"
| "wexp NInf = Finite 0"
| "wexp NaN = NaN"

fun wless :: "weight \<Rightarrow> weight \<Rightarrow> bool" where
  "wless (Finite x) (Finite y) = (x < y)"
| "wless NaN _ = False"
| "wless _ NaN = False"
| "wless PInf _ = False"
| "wless _ PInf = True"
| "wless _ NInf = False"
| "wless NInf _ = True"

text \<open>The two-argument maximum and minimum of the C++ standard library.\<close>

definition wmax :: "weight \<Rightarrow> weight \<Rightarrow> weight" where
  "wmax a b = (if wless a b then b else a)"

definition wmin :: "weight \<Rightarrow> weight \<Rightarrow> weight" where
  "wmin a b = (if wless b a then b else a)"

definition wsum :: "weight list \<Rightarrow> weight" where
  "wsum xs = foldr wadd xs (Finite 0)"

text \<open>
  Modelled from the spec: the vector operations of \<open>etl/etl.hpp\<close>, which is not among
  the source files. Sections 4.1 and 4.3 of the specification give them as follows.
  \<^item> Pre-activation: \<open>bias + input \<cdot> weights\<close> in the visible-to-hidden direction (entry
    \<open>j\<close> is the sum over the visible units \<open>i\<close> of \<open>v\<^sub>i * w\<^sub>i\<^sub>j\<close>). In the other direction
    the specification writes \<open>bias + weights\<^sup>t \<cdot> input\<close>; the shapes in \<open>rbm.inl\<close> (\<open>w\<close>
    has \<open>num_visible\<close> rows of \<open>num_hidden\<close> entries, the scratch buffer has
    \<open>num_visible\<close> rows) make entry \<open>i\<close> the sum over the hidden units \<open>j\<close> of
    \<open>w\<^sub>i\<^sub>j * h\<^sub>j\<close>.
  \<^item> \<open>sigmoid\<close>: the logistic function, elementwise.
  \<^item> \<open>max\<close>, \<open>min\<close> with a scalar: elementwise.
  \<^item> \<open>softmax\<close>: numerically stable, the row maximum is subtracted before exponentiating.
  \<^item> \<open>one_if_max\<close>: the one-hot vector with a 1 at the index of the maximum coordinate;
    among equal maxima the model takes the first index.
  \<^item> \<open>bernoulli\<close>: an independent coin flip per unit with the activation as success
    probability; the unit is set when the activation exceeds a uniform draw.
  The shapes of the operands agree by the contract of section 4.3.
\<close>

definition w_plus_v :: "weight list \<Rightarrow> weight list \<Rightarrow> weight list" where
  "w_plus_v xs ys = map2 wadd xs ys"

definition w_dot :: "weight list \<Rightarrow> weight list \<Rightarrow> weight" where
  "w_dot xs ys = wsum (map2 wmul xs ys)"

definition w_vmmul_vm :: "weight list \<Rightarrow> weight list list \<Rightarrow> weight list" where
  "w_vmmul_vm v w = map (\<lambda>col. w_dot v col) (transpose w)"

definition w_vmmul_mv :: "weight list list \<Rightarrow> weight list \<Rightarrow> weight list" where
  "w_vmmul_mv w h = map (\<lambda>row. w_dot row h) w"

definition logistic :: "real \<Rightarrow> real" where
  "logistic x = 1 / (1 + exp (- x))"

fun wsigmoid :: "weight \<Rightarrow> weight" where
  "wsigmoid (Finite x) = Finite (logistic x)"
| "wsigmoid PInf = Finite 1"
| "wsigmoid NInf = Finite 0"
| "wsigmoid NaN = NaN"

definition w_sigmoid :: "weight list \<Rightarrow> weight list" where
  "w_sigmoid xs = map wsigmoid xs"

definition w_max_v :: "weight list \<Rightarrow> real \<Rightarrow> weight list" where
  "w_max_v xs r = map (\<lambda>x. wmax x (Finite r)) xs"

definition w_min_v :: "weight list \<Rightarrow> real \<Rightarrow> weight list" where
  "w_min_v xs r = map (\<lambda>x. wmin x (Finite r)) xs"

definition w_maximum :: "weight list \<Rightarrow> weight" where
  "w_maximum xs = (case xs of [] \<Rightarrow> NaN | x # ys \<Rightarrow> foldl wmax x ys)"

definition w_softmax :: "weight list \<Rightarrow> weight list" where
  "w_softmax xs =
     (let m = w_maximum xs;
          es = map (\<lambda>x. wexp (wadd x (wneg m))) xs;
          s = wsum es
      in map (\<lambda>e. wdiv e s) es)"

definition w_argmax :: "weight list \<Rightarrow> nat" where
  "w_argmax xs = length (takeWhile (\<lambda>x. x \<noteq> w_maximum xs) xs)"

definition w_one_if_max :: "weight list \<Rightarrow> weight list" where
  "w_one_if_max xs =
     map (\<lambda>i. if i = w_argmax xs then Finite 1 else Finite 0) [0..<length xs]"

text \<open>
  The random engine of the reference instance: the position in a fixed sequence of
  uniform draws from the unit interval.
\<close>

type_synonym engine = "nat \<times> (nat \<Rightarrow> real)"

definition w_bernoulli :: "engine \<Rightarrow> weight list \<Rightarrow> weight list \<times> engine" where
  "w_bernoulli g xs =
     (map (\<lambda>i. if wless (Finite (snd g (fst g + i))) (xs ! i) then Finite 1 else Finite 0)
        [0..<length xs],
      (fst g + length xs, snd g))"

text \<open>
  The specification says of the two noise samplers only that they perturb the
  activation; they stay parameters of the reference instance.
\<close>

definition reference_etl ::
  "(engine \<Rightarrow> weight list \<Rightarrow> weight list \<times> engine) \<Rightarrow>
   (engine \<Rightarrow> weight list \<Rightarrow> real \<Rightarrow> weight list \<times> engine) \<Rightarrow> (weight, engine) etl" where
  "reference_etl lnoise rnoise =
     \<lparr> isfinite = wfinite,
       plus_v = w_plus_v,
       auto_vmmul_vm = w_vmmul_vm,
       auto_vmmul_mv = w_vmmul_mv,
       sigmoid = w_sigmoid,
       max_v = w_max_v,
       min_v = w_min_v,
       softmax = w_softmax,
       one_if_max = w_one_if_max,
       bernoulli = w_bernoulli,
       logistic_noise = lnoise,
       ranged_noise = rnoise \<rparr>"

text \<open>A sampler that adds no noise, to run the reference instance on concrete inputs.\<close>

definition quiet_etl :: "(weight, engine) etl" where
  "quiet_etl = reference_etl (\<lambda>g xs. (xs, g)) (\<lambda>g xs r. (xs, g))"

text \<open>
  The values \<open>w_softmax\<close> takes on a vector of finite entries, as reals: the statement
  of the softmax properties is about these.
\<close>

definition softmax_real :: "real list \<Rightarrow> real list" where
  "softmax_real zs =
     map (\<lambda>z. exp (z - Max (set zs)) / (\<Sum>y\<leftarrow>zs. exp (y - Max (set zs)))) zs"

text \<open>
  The clamp of the specification's section 4.1, \<open>clamp(y, lo, hi)\<close>: the value \<open>y\<close>
  bounded below by \<open>lo\<close> and above by \<open>hi\<close>. It is the specification's wording of the
  bounded rectifiers, to be compared with what the hidden step computes.
\<close>

definition spec_clamp :: "weight \<Rightarrow> real \<Rightarrow> real \<Rightarrow> weight" where
  "spec_clamp y lo hi = wmin (wmax y (Finite lo)) (Finite hi)"

text \<open>
  Small models to run the steps on: a layout with the given unit kinds, and an engine
  whose every draw is 0.
\<close>

definition layout :: "nat \<Rightarrow> nat \<Rightarrow> unit_type \<Rightarrow> unit_type \<Rightarrow> desc" where
  "layout nv nh vu hu =
     \<lparr> num_visible = nv, num_hidden = nh, visible_unit = vu, hidden_unit = hu \<rparr>"

definition zero_draws :: "nat \<Rightarrow> real" where
  "zero_draws n = 0"

text \<open>A model with one visible and one hidden unit, the given weight and zero biases.\<close>

definition unit_rbm :: "real \<Rightarrow> weight rbm" where
  "unit_rbm x = \<lparr> rbm_w = [[Finite x]], rbm_b = [Finite 0], rbm_c = [Finite 0] \<rparr>"

section \<open>Properties\<close>

subsection \<open>Auxiliary facts\<close>

lemmas reference_eval =
  quiet_etl_def reference_etl_def layout_def zero_draws_def unit_rbm_def nan_check_deep_def
  Let_def
  w_plus_v_def w_dot_def w_vmmul_vm_def w_vmmul_mv_def w_sigmoid_def w_max_v_def w_min_v_def
  wsum_def wmax_def wmin_def w_bernoulli_def

lemma guard_outcome:
  "(case nan_check_deep E a of
      Inl e \<Rightarrow> Inl e
    | Inr u \<Rightarrow> (case nan_check_deep E s of Inl e \<Rightarrow> Inl e | Inr u' \<Rightarrow> Inr (a, s, g))) =
   (if list_all (isfinite E) a \<and> list_all (isfinite E) s then Inr (a, s, g)
    else Inl NaN_Check_Failed)"
  by (simp add: nan_check_deep_def)

lemma activate_hidden_finite:
  "activate_hidden E d P S h_a h_s v_a v_s b w g = Inr (a, s, g') \<Longrightarrow>
     list_all (isfinite E) a \<and> list_all (isfinite E) s"
  unfolding activate_hidden_def Let_def guard_outcome
  by (simp split: prod.splits if_splits)

lemma activate_visible_finite:
  "activate_visible E d P S h_a h_s v_a v_s c w g = Inr (a, s, g') \<Longrightarrow>
     list_all (isfinite E) a \<and> list_all (isfinite E) s"
  unfolding activate_visible_def Let_def guard_outcome
  by (simp split: prod.splits if_splits)

lemma hidden_activation_of:
  assumes "activate_hidden E d True S h_a h_s v_a v_s b w g = Inr (a, s, g')"
  shows "a =
    (if hidden_unit d = BINARY then sigmoid E (plus_v E b (auto_vmmul_vm E v_a w))
     else if hidden_unit d = RELU then max_v E (plus_v E b (auto_vmmul_vm E v_a w)) 0
     else if hidden_unit d = RELU6 then
       min_v E (max_v E (plus_v E b (auto_vmmul_vm E v_a w)) 0) 6
     else if hidden_unit d = RELU1 then
       min_v E (max_v E (plus_v E b (auto_vmmul_vm E v_a w)) 0) 1
     else if hidden_unit d = SOFTMAX then softmax E (plus_v E b (auto_vmmul_vm E v_a w))
     else h_a)"
  using assms unfolding activate_hidden_def Let_def guard_outcome
  by (simp split: prod.splits if_splits)

text \<open>The fields of the reference instance.\<close>

lemma reference_sel [simp]:
  "isfinite (reference_etl lnoise rnoise) = wfinite"
  "plus_v (reference_etl lnoise rnoise) = w_plus_v"
  "auto_vmmul_vm (reference_etl lnoise rnoise) = w_vmmul_vm"
  "auto_vmmul_mv (reference_etl lnoise rnoise) = w_vmmul_mv"
  "sigmoid (reference_etl lnoise rnoise) = w_sigmoid"
  "max_v (reference_etl lnoise rnoise) = w_max_v"
  "min_v (reference_etl lnoise rnoise) = w_min_v"
  "softmax (reference_etl lnoise rnoise) = w_softmax"
  "one_if_max (reference_etl lnoise rnoise) = w_one_if_max"
  "bernoulli (reference_etl lnoise rnoise) = w_bernoulli"
  by (simp_all add: reference_etl_def)

text \<open>Rectifiers on a single weight.\<close>

lemma relu_range:
  "wfinite (wmax y (Finite 0)) \<Longrightarrow> \<exists>r. wmax y (Finite 0) = Finite r \<and> 0 \<le> r"
  by (cases y) (simp_all add: wmax_def)

lemma relu_bounded_range:
  "0 \<le> hi \<Longrightarrow> wfinite (wmin (wmax y (Finite 0)) (Finite hi)) \<Longrightarrow>
     \<exists>r. wmin (wmax y (Finite 0)) (Finite hi) = Finite r \<and> 0 \<le> r \<and> r \<le> hi"
  by (cases y) (simp_all add: wmax_def wmin_def)

lemma relu_clamp:
  "wmin (wmax y (Finite 0)) (Finite hi) = spec_clamp (wmax y (Finite 0)) 0 hi"
  by (cases y) (simp_all add: spec_clamp_def wmax_def wmin_def)

text \<open>Maximum, sum and softmax of a vector of finite weights.\<close>

lemma wmax_Finite: "wmax (Finite x) (Finite y) = Finite (max x y)"
  by (simp add: wmax_def max_def)

lemma foldl_wmax_Finite: "foldl wmax (Finite x) (map Finite ys) = Finite (foldl max x ys)"
  by (induction ys arbitrary: x) (simp_all add: wmax_Finite)

lemma foldl_max_Max: "foldl max (x :: real) ys = Max (set (x # ys))"
proof (induction ys arbitrary: x)
  case Nil
  show ?case by simp
next
  case (Cons y ys)
  have "foldl max x (y # ys) = Max (insert (max x y) (set ys))"
    using Cons.IH [of "max x y"] by simp
  also have "\<dots> = Max (insert x (insert y (set ys)))"
    by (cases "ys = []") (simp_all add: max.assoc)
  finally show ?case by simp
qed

lemma w_maximum_Finite:
  assumes "zs \<noteq> []"
  shows "w_maximum (map Finite zs) = Finite (Max (set zs))"
proof -
  obtain x ys where zs: "zs = x # ys" using assms by (cases zs) auto
  show ?thesis
    unfolding zs w_maximum_def
    by (simp add: foldl_wmax_Finite foldl_max_Max del: Max.set_eq_fold)
qed

lemma wsum_Finite: "wsum (map Finite rs) = Finite (sum_list rs)"
  by (induction rs) (simp_all add: wsum_def)

lemma sum_list_exp_pos: "zs \<noteq> [] \<Longrightarrow> 0 < (\<Sum>z\<leftarrow>zs. exp (z - m :: real))"
proof (induction zs)
  case Nil
  then show ?case by simp
next
  case (Cons z zs)
  show ?case
  proof (cases "zs = []")
    case True
    then show ?thesis by simp
  next
    case False
    with Cons.IH have "0 < (\<Sum>z\<leftarrow>zs. exp (z - m))" by simp
    then show ?thesis by (simp add: add_pos_pos)
  qed
qed

lemma w_softmax_Finite:
  assumes "zs \<noteq> []"
  shows "w_softmax (map Finite zs) = map Finite (softmax_real zs)"
proof -
  let ?m = "Max (set zs)"
  let ?S = "\<Sum>y\<leftarrow>zs. exp (y - ?m)"
  have es: "map (\<lambda>x. wexp (wadd x (wneg (Finite ?m)))) (map Finite zs) =
      map Finite (map (\<lambda>z. exp (z - ?m)) zs)"
    by simp
  have S: "?S \<noteq> 0" using sum_list_exp_pos [OF assms, of ?m] by simp
  show ?thesis
    unfolding w_softmax_def Let_def w_maximum_Finite [OF assms] es wsum_Finite softmax_real_def
    using S by (simp add: comp_def)
qed

lemma sum_list_softmax_real:
  assumes "zs \<noteq> []"
  shows "sum_list (softmax_real zs) = 1"
proof -
  let ?m = "Max (set zs)"
  let ?S = "\<Sum>y\<leftarrow>zs. exp (y - ?m)"
  have S: "?S \<noteq> 0" using sum_list_exp_pos [OF assms, of ?m] by simp
  have "sum_list (softmax_real zs) = (\<Sum>z\<leftarrow>zs. exp (z - ?m) * inverse ?S)"
    by (simp add: softmax_real_def divide_inverse)
  also have "\<dots> = ?S * inverse ?S"
    by (simp only: sum_list_mult_const)
  also have "\<dots> = 1" using S by simp
  finally show ?thesis .
qed

text \<open>The hard argmax sample of a vector of finite weights.\<close>

lemma takeWhile_stops: "x \<in> set xs \<Longrightarrow> length (takeWhile (\<lambda>y. y \<noteq> x) xs) < length xs"
  by (induction xs) auto

lemma w_one_if_max_Finite:
  assumes "ps \<noteq> []"
  shows "\<exists>k < length ps. w_one_if_max (map Finite ps) =
      (replicate (length ps) (Finite 0))[k := Finite 1] \<and> (\<forall>j < length ps. ps ! j \<le> ps ! k)"
proof -
  let ?xs = "map Finite ps"
  let ?M = "Max (set ps)"
  let ?k = "w_argmax ?xs"
  have mx: "w_maximum ?xs = Finite ?M" by (rule w_maximum_Finite [OF assms])
  have "?M \<in> set ps" using assms by simp
  then have "Finite ?M \<in> set ?xs" by simp
  then have k: "?k < length ?xs"
    unfolding w_argmax_def mx by (rule takeWhile_stops)
  then have "\<not> (?xs ! ?k \<noteq> Finite ?M)"
    unfolding w_argmax_def mx by (rule nth_length_takeWhile)
  then have at: "ps ! ?k = ?M" using k by simp
  have hot: "w_one_if_max ?xs = (replicate (length ps) (Finite 0))[?k := Finite 1]"
    by (rule nth_equalityI) (auto simp: w_one_if_max_def nth_list_update)
  have "\<forall>j < length ps. ps ! j \<le> ps ! ?k"
    unfolding at by simp
  with k hot show ?thesis by auto
qed

lemma wfinite_one_hot: "list_all wfinite ((replicate n (Finite 0))[k := Finite 1])"
proof -
  have "set ((replicate n (Finite 0))[k := Finite 1]) \<subseteq>
      insert (Finite 1) (set (replicate n (Finite 0)))"
    by (rule set_update_subset_insert)
  then show ?thesis by (auto simp: list_all_iff)
qed

lemma wfinite_map_Finite: "list_all wfinite (map Finite ps)"
  by (simp add: list_all_iff)

text \<open>
  The guard at work: an infinite visible activation reaches a rectified hidden unit,
  and the step reports it instead of returning.
\<close>

lemma guard_reports_injected_inf:
  "activate_hidden quiet_etl (layout 1 1 BINARY RELU) True True [Finite 0] [Finite 0]
     [PInf] [PInf] [Finite 0] [[Finite 1]] (0, zero_draws) = Inl NaN_Check_Failed"
  by (simp add: activate_hidden_def reference_eval winf_def)

subsection \<open>The hidden step reads the visible activation only\<close>

text \<open>
  Claim C10. The outputs of \<open>activate_hidden\<close> depend on the visible activation
  argument and never on the visible sample argument: two calls that differ only in the
  visible sample have the same outcome (activation, sample and engine, or the same
  failure).
\<close>

theorem activate_hidden_ignores_visible_sample:
  "activate_hidden E d P S h_a h_s v_a v_s b w g =
   activate_hidden E d P S h_a h_s v_a v_s' b w g"
  by (simp add: activate_hidden_def)

theorem activate_hidden_ignores_visible_sample_witness:
  "activate_hidden quiet_etl (layout 1 1 BINARY BINARY) True True [Finite 0] [Finite 0]
     [Finite 1] [Finite 1] [Finite 0] [[Finite 0]] (0, zero_draws) =
   activate_hidden quiet_etl (layout 1 1 BINARY BINARY) True True [Finite 0] [Finite 0]
     [Finite 1] [Finite 0] [Finite 0] [[Finite 0]] (0, zero_draws) \<and>
   activate_hidden quiet_etl (layout 1 1 BINARY BINARY) True True [Finite 0] [Finite 0]
     [Finite 1] [Finite 0] [Finite 0] [[Finite 0]] (0, zero_draws) =
   Inr ([Finite (1 / 2)], [Finite 1], (1, zero_draws))"
proof -
  have same: "activate_hidden quiet_etl (layout 1 1 BINARY BINARY) True True [Finite 0]
      [Finite 0] [Finite 1] [Finite 1] [Finite 0] [[Finite 0]] (0, zero_draws) =
    activate_hidden quiet_etl (layout 1 1 BINARY BINARY) True True [Finite 0] [Finite 0]
      [Finite 1] [Finite 0] [Finite 0] [[Finite 0]] (0, zero_draws)"
    by (rule activate_hidden_ignores_visible_sample)
  have run: "activate_hidden quiet_etl (layout 1 1 BINARY BINARY) True True [Finite 0]
      [Finite 0] [Finite 1] [Finite 0] [Finite 0] [[Finite 0]] (0, zero_draws) =
    Inr ([Finite (1 / 2)], [Finite 1], (1, zero_draws))"
    by (simp add: activate_hidden_def reference_eval logistic_def)
  show ?thesis by (rule conjI [OF same run])
qed

subsection \<open>The visible step reads the hidden sample only\<close>

text \<open>
  Claim C2. \<open>activate_visible\<close> reconstructs from the hidden sample: two calls that
  differ only in the hidden activation argument have the same outcome, whereas flipping
  one unit of the hidden sample can change the reconstruction (second conjunct: a
  Gaussian visible unit fed by two hidden units, with the same hidden activation and
  hidden samples \<open>[1, 0]\<close> and \<open>[0, 0]\<close>).
\<close>

theorem activate_visible_reads_hidden_sample_only:
  "activate_visible E d P S h_a h_s v_a v_s c w g =
     activate_visible E d P S h_a' h_s v_a v_s c w g \<and>
   activate_visible quiet_etl (layout 1 2 GAUSSIAN BINARY) True True
     [Finite (1 / 2), Finite (1 / 2)] [Finite 1, Finite 0] [Finite 0] [Finite 0]
     [Finite 0] [[Finite 1, Finite 1]] (0, zero_draws) \<noteq>
   activate_visible quiet_etl (layout 1 2 GAUSSIAN BINARY) True True
     [Finite (1 / 2), Finite (1 / 2)] [Finite 0, Finite 0] [Finite 0] [Finite 0]
     [Finite 0] [[Finite 1, Finite 1]] (0, zero_draws)"
proof
  show "activate_visible E d P S h_a h_s v_a v_s c w g =
      activate_visible E d P S h_a' h_s v_a v_s c w g"
    by (simp add: activate_visible_def)
next
  have one: "activate_visible quiet_etl (layout 1 2 GAUSSIAN BINARY) True True
      [Finite (1 / 2), Finite (1 / 2)] [Finite 1, Finite 0] [Finite 0] [Finite 0]
      [Finite 0] [[Finite 1, Finite 1]] (0, zero_draws) =
    Inr ([Finite 1], [Finite 1], (0, zero_draws))"
    by (simp add: activate_visible_def reference_eval)
  have zero: "activate_visible quiet_etl (layout 1 2 GAUSSIAN BINARY) True True
      [Finite (1 / 2), Finite (1 / 2)] [Finite 0, Finite 0] [Finite 0] [Finite 0]
      [Finite 0] [[Finite 1, Finite 1]] (0, zero_draws) =
    Inr ([Finite 0], [Finite 0], (0, zero_draws))"
    by (simp add: activate_visible_def reference_eval)
  show "activate_visible quiet_etl (layout 1 2 GAUSSIAN BINARY) True True
      [Finite (1 / 2), Finite (1 / 2)] [Finite 1, Finite 0] [Finite 0] [Finite 0]
      [Finite 0] [[Finite 1, Finite 1]] (0, zero_draws) \<noteq>
    activate_visible quiet_etl (layout 1 2 GAUSSIAN BINARY) True True
      [Finite (1 / 2), Finite (1 / 2)] [Finite 0, Finite 0] [Finite 0] [Finite 0]
      [Finite 0] [[Finite 1, Finite 1]] (0, zero_draws)"
    unfolding one zero by simp
qed

theorem activate_visible_reads_hidden_sample_only_witness:
  "activate_visible quiet_etl (layout 1 2 GAUSSIAN BINARY) True True
     [Finite (1 / 2), Finite (1 / 2)] [Finite 1, Finite 0] [Finite 0] [Finite 0]
     [Finite 0] [[Finite 1, Finite 1]] (0, zero_draws) =
   activate_visible quiet_etl (layout 1 2 GAUSSIAN BINARY) True True
     [Finite 1, Finite 0] [Finite 1, Finite 0] [Finite 0] [Finite 0]
     [Finite 0] [[Finite 1, Finite 1]] (0, zero_draws)"
  by (rule activate_visible_reads_hidden_sample_only [THEN conjunct1])

subsection \<open>The two ways to the hidden sample\<close>

text \<open>
  Claim C4. For every supported hidden unit kind (every kind the hidden step has a
  branch for), the sample-only path (\<open>P = false\<close>, \<open>S = true\<close>) and the combined path
  (\<open>P = true\<close>, \<open>S = true\<close>), run on the same visible activation, bias, weights and
  engine, produce the same hidden sample and leave the engine in the same state,
  whatever the output buffers held before. The combined path is the activation of the
  path with \<open>P\<close> alone followed by the sample of the sample-only path: when those two
  return, so does the combined path, with exactly these two tensors. The sample-only
  path leaves the activation buffer as it was.
\<close>

theorem activate_hidden_sample_paths_agree:
  assumes "hidden_unit d \<noteq> GAUSSIAN"
    and "activate_hidden E d False True h_a h_s v_a v_s b w g = Inr (a1, s1, g1)"
  shows "(activate_hidden E d True True h_a' h_s' v_a v_s b w g = Inr (a2, s2, g2) \<longrightarrow>
        s1 = s2 \<and> g1 = g2) \<and>
     (activate_hidden E d True False k_a k_s v_a v_s b w g = Inr (a3, s3, g3) \<longrightarrow>
        activate_hidden E d True True m_a m_s v_a v_s b w g = Inr (a3, s1, g1)) \<and>
     a1 = h_a"
  using assms unfolding activate_hidden_def Let_def guard_outcome
  by (cases "hidden_unit d") (auto split: prod.splits if_splits)

theorem activate_hidden_sample_paths_agree_witness:
  "hidden_unit (layout 1 1 BINARY BINARY) \<noteq> GAUSSIAN \<and>
   activate_hidden quiet_etl (layout 1 1 BINARY BINARY) False True [Finite 0] [Finite 0]
     [Finite 1] [Finite 1] [Finite 0] [[Finite 0]] (0, zero_draws) =
     Inr ([Finite 0], [Finite 1], (1, zero_draws)) \<and>
   activate_hidden quiet_etl (layout 1 1 BINARY BINARY) True True [Finite 3] [Finite 4]
     [Finite 1] [Finite 1] [Finite 0] [[Finite 0]] (0, zero_draws) =
     Inr ([Finite (1 / 2)], [Finite 1], (1, zero_draws)) \<and>
   activate_hidden quiet_etl (layout 1 1 BINARY BINARY) True False [Finite 5] [Finite 6]
     [Finite 1] [Finite 1] [Finite 0] [[Finite 0]] (0, zero_draws) =
     Inr ([Finite (1 / 2)], [Finite 6], (0, zero_draws)) \<and>
   ([Finite 1] = [Finite 1] \<and> (1 :: nat, zero_draws) = (1, zero_draws)) \<and>
   activate_hidden quiet_etl (layout 1 1 BINARY BINARY) True True [NaN] [NaN]
     [Finite 1] [Finite 1] [Finite 0] [[Finite 0]] (0, zero_draws) =
     Inr ([Finite (1 / 2)], [Finite 1], (1, zero_draws))"
proof -
  have kind: "hidden_unit (layout 1 1 BINARY BINARY) \<noteq> GAUSSIAN"
    by (simp add: layout_def)
  have direct: "activate_hidden quiet_etl (layout 1 1 BINARY BINARY) False True [Finite 0]
      [Finite 0] [Finite 1] [Finite 1] [Finite 0] [[Finite 0]] (0, zero_draws) =
    Inr ([Finite 0], [Finite 1], (1, zero_draws))"
    by (simp add: activate_hidden_def reference_eval logistic_def)
  have combined: "activate_hidden quiet_etl (layout 1 1 BINARY BINARY) True True [Finite 3]
      [Finite 4] [Finite 1] [Finite 1] [Finite 0] [[Finite 0]] (0, zero_draws) =
    Inr ([Finite (1 / 2)], [Finite 1], (1, zero_draws))"
    by (simp add: activate_hidden_def reference_eval logistic_def)
  have prob: "activate_hidden quiet_etl (layout 1 1 BINARY BINARY) True False [Finite 5]
      [Finite 6] [Finite 1] [Finite 1] [Finite 0] [[Finite 0]] (0, zero_draws) =
    Inr ([Finite (1 / 2)], [Finite 6], (0, zero_draws))"
    by (simp add: activate_hidden_def reference_eval logistic_def)
  note paths = activate_hidden_sample_paths_agree [OF kind direct]
  note agree = paths [THEN conjunct1, rule_format, OF combined]
  note built = paths [THEN conjunct2, THEN conjunct1, rule_format, OF prob, of "[NaN]" "[NaN]"]
  show ?thesis
    by (rule conjI [OF kind conjI [OF direct conjI [OF combined conjI [OF prob
          conjI [OF agree built]]]]])
qed

subsection \<open>Stability guard as post-condition\<close>

text \<open>
  Claim C5. Whenever \<open>activate_hidden\<close> or \<open>activate_visible\<close> returns normally, the
  activation and the sample tensor it returns hold finite elements only: a NaN or an
  infinity in either makes the step fail on the guard instead of returning. The last
  conjunct spells the guard's element test out on the reference weights.
\<close>

theorem activation_steps_return_finite:
  "(activate_hidden E d P S h_a h_s v_a v_s b w g = Inr (a, s, g') \<longrightarrow>
      list_all (isfinite E) a \<and> list_all (isfinite E) s) \<and>
   (activate_visible E d P' S' k_a k_s u_a u_s c w' g0 = Inr (a', s', g1) \<longrightarrow>
      list_all (isfinite E) a' \<and> list_all (isfinite E) s') \<and>
   (isfinite (reference_etl lnoise rnoise) x \<longleftrightarrow> x \<noteq> NaN \<and> x \<noteq> PInf \<and> x \<noteq> NInf)"
proof (intro conjI impI)
  show "isfinite (reference_etl lnoise rnoise) x \<longleftrightarrow> x \<noteq> NaN \<and> x \<noteq> PInf \<and> x \<noteq> NInf"
    by (cases x) (simp_all add: reference_etl_def)
qed (simp_all add: activate_hidden_finite activate_visible_finite)

theorem activation_steps_return_finite_witness:
  "activate_hidden quiet_etl (layout 1 1 BINARY RELU) True True [NaN] [NaN]
     [Finite 2] [Finite 2] [Finite 1] [[Finite 3]] (0, zero_draws) =
     Inr ([Finite 7], [Finite 7], (0, zero_draws)) \<and>
   activate_visible quiet_etl (layout 1 1 BINARY RELU) True True [Finite 0] [Finite 1]
     [NaN] [NaN] [Finite 0] [[Finite 0]] (0, zero_draws) =
     Inr ([Finite (1 / 2)], [Finite 1], (1, zero_draws)) \<and>
   list_all (isfinite quiet_etl) [Finite 7] \<and> list_all (isfinite quiet_etl) [Finite 7] \<and>
   list_all (isfinite quiet_etl) [Finite (1 / 2)] \<and> list_all (isfinite quiet_etl) [Finite 1]"
proof -
  have hid: "activate_hidden quiet_etl (layout 1 1 BINARY RELU) True True [NaN] [NaN]
      [Finite 2] [Finite 2] [Finite 1] [[Finite 3]] (0, zero_draws) =
    Inr ([Finite 7], [Finite 7], (0, zero_draws))"
    by (simp add: activate_hidden_def reference_eval)
  have vis: "activate_visible quiet_etl (layout 1 1 BINARY RELU) True True [Finite 0]
      [Finite 1] [NaN] [NaN] [Finite 0] [[Finite 0]] (0, zero_draws) =
    Inr ([Finite (1 / 2)], [Finite 1], (1, zero_draws))"
    by (simp add: activate_visible_def reference_eval logistic_def)
  note post = activation_steps_return_finite [of quiet_etl "layout 1 1 BINARY RELU" True True
      "[NaN]" "[NaN]" "[Finite 2]" "[Finite 2]" "[Finite 1]" "[[Finite 3]]" "(0, zero_draws)"
      "[Finite 7]" "[Finite 7]" "(0, zero_draws)" True True "[Finite 0]" "[Finite 1]"
      "[NaN]" "[NaN]" "[Finite 0]" "[[Finite 0]]" "(0, zero_draws)"
      "[Finite (1 / 2)]" "[Finite 1]" "(1, zero_draws)"]
  from post hid have fin_h:
    "list_all (isfinite quiet_etl) [Finite 7] \<and> list_all (isfinite quiet_etl) [Finite 7]"
    by blast
  from post vis have fin_v:
    "list_all (isfinite quiet_etl) [Finite (1 / 2)] \<and> list_all (isfinite quiet_etl) [Finite 1]"
    by blast
  from hid vis fin_h fin_v show ?thesis by blast
qed

subsection \<open>Gaussian visible units\<close>

text \<open>
  Claim C8. With a GAUSSIAN visible unit, \<open>activate_visible\<close> sets the visible
  activation (when \<open>P\<close>) to the raw pre-activation \<open>c + w \<cdot> h_s\<close>, and the visible sample
  (when \<open>S\<close>) to that same vector, with no noise and no random draw: with both flags set
  the two outputs are equal, and the step returns exactly when the outputs are finite.
\<close>

theorem activate_visible_gaussian_identity:
  assumes "visible_unit d = GAUSSIAN"
  shows "activate_visible E d P S h_a h_s v_a v_s c w g =
    (let z = plus_v E c (auto_vmmul_mv E w h_s);
         a = (if P then z else v_a);
         s = (if S then z else v_s)
     in if list_all (isfinite E) a \<and> list_all (isfinite E) s then Inr (a, s, g)
        else Inl NaN_Check_Failed)"
  using assms unfolding activate_visible_def Let_def guard_outcome
  by simp

theorem activate_visible_gaussian_identity_witness:
  "visible_unit (layout 2 2 GAUSSIAN BINARY) = GAUSSIAN \<and>
   activate_visible quiet_etl (layout 2 2 GAUSSIAN BINARY) True True
     [Finite (1 / 2), Finite (1 / 2)] [Finite 1, Finite 0] [Finite 0, Finite 0]
     [Finite 0, Finite 0] [Finite 1, Finite (- 1)]
     [[Finite 2, Finite 3], [Finite 5, Finite 7]] (0, zero_draws) =
   Inr ([Finite 3, Finite 4], [Finite 3, Finite 4], (0, zero_draws))"
proof -
  have kind: "visible_unit (layout 2 2 GAUSSIAN BINARY) = GAUSSIAN"
    by (simp add: layout_def)
  have run: "activate_visible quiet_etl (layout 2 2 GAUSSIAN BINARY) True True
      [Finite (1 / 2), Finite (1 / 2)] [Finite 1, Finite 0] [Finite 0, Finite 0]
      [Finite 0, Finite 0] [Finite 1, Finite (- 1)]
      [[Finite 2, Finite 3], [Finite 5, Finite 7]] (0, zero_draws) =
    Inr ([Finite 3, Finite 4], [Finite 3, Finite 4], (0, zero_draws))"
    by (subst activate_visible_gaussian_identity [OF kind]) (simp add: reference_eval)
  show ?thesis by (rule conjI [OF kind run])
qed

subsection \<open>Unit kinds without a branch\<close>

text \<open>
  Claim C9, as stated: when the unit kind of the layer matches no branch of its step,
  both output buffers keep their prior contents and the step raises no error. The
  second half fails: the guard still scans the two unwritten buffers, so a prior
  content that holds a NaN makes the step fail. Here the hidden kind is GAUSSIAN and
  the activation buffer holds a NaN before the call.
\<close>

theorem unmatched_unit_guard_fires:
  "activate_hidden quiet_etl (layout 1 1 BINARY GAUSSIAN) True True [NaN] [Finite 0]
     [Finite 1] [Finite 1] [Finite 0] [[Finite 0]] (0, zero_draws) = Inl NaN_Check_Failed"
  by (simp add: activate_hidden_def reference_eval)

text \<open>
  Claim C9, amended. When the hidden kind matches no branch of \<open>activate_hidden\<close>
  (GAUSSIAN), or the visible kind matches no branch of \<open>activate_visible\<close> (RELU1,
  RELU6, SOFTMAX), the step writes neither output tensor and draws no random number.
  The guard still scans both buffers: the step returns them with their prior contents
  when these are finite and fails on the guard otherwise; the unmatched kind raises no
  error of its own.
\<close>

theorem unmatched_unit_frame:
  "(hidden_unit d = GAUSSIAN \<longrightarrow>
      activate_hidden E d P S h_a h_s v_a v_s b w g =
        (if list_all (isfinite E) h_a \<and> list_all (isfinite E) h_s then Inr (h_a, h_s, g)
         else Inl NaN_Check_Failed)) \<and>
   (visible_unit d' = RELU1 \<or> visible_unit d' = RELU6 \<or> visible_unit d' = SOFTMAX \<longrightarrow>
      activate_visible E d' P' S' k_a k_s u_a u_s c w' g0 =
        (if list_all (isfinite E) u_a \<and> list_all (isfinite E) u_s then Inr (u_a, u_s, g0)
         else Inl NaN_Check_Failed))"
  unfolding activate_hidden_def activate_visible_def Let_def guard_outcome
  by auto

theorem unmatched_unit_frame_witness:
  "hidden_unit (layout 1 1 SOFTMAX GAUSSIAN) = GAUSSIAN \<and>
   visible_unit (layout 1 1 SOFTMAX GAUSSIAN) = SOFTMAX \<and>
   activate_hidden quiet_etl (layout 1 1 SOFTMAX GAUSSIAN) True True [Finite 8] [Finite 9]
     [Finite 1] [Finite 1] [Finite 0] [[Finite 1]] (0, zero_draws) =
     Inr ([Finite 8], [Finite 9], (0, zero_draws)) \<and>
   activate_visible quiet_etl (layout 1 1 SOFTMAX GAUSSIAN) True True [Finite 1] [Finite 1]
     [Finite 8] [Finite 9] [Finite 0] [[Finite 1]] (0, zero_draws) =
     Inr ([Finite 8], [Finite 9], (0, zero_draws))"
proof -
  have hk: "hidden_unit (layout 1 1 SOFTMAX GAUSSIAN) = GAUSSIAN"
    by (simp add: layout_def)
  have vk: "visible_unit (layout 1 1 SOFTMAX GAUSSIAN) = SOFTMAX"
    by (simp add: layout_def)
  note frame = unmatched_unit_frame [of "layout 1 1 SOFTMAX GAUSSIAN" quiet_etl True True
      "[Finite 8]" "[Finite 9]" "[Finite 1]" "[Finite 1]" "[Finite 0]" "[[Finite 1]]"
      "(0, zero_draws)" "layout 1 1 SOFTMAX GAUSSIAN" True True "[Finite 1]" "[Finite 1]"
      "[Finite 8]" "[Finite 9]" "[Finite 0]" "[[Finite 1]]" "(0, zero_draws)"]
  have fin: "list_all (isfinite quiet_etl) [Finite 8] \<and> list_all (isfinite quiet_etl) [Finite 9]"
    by (simp add: reference_eval)
  from frame hk fin have hid: "activate_hidden quiet_etl (layout 1 1 SOFTMAX GAUSSIAN) True True
      [Finite 8] [Finite 9] [Finite 1] [Finite 1] [Finite 0] [[Finite 1]] (0, zero_draws) =
    Inr ([Finite 8], [Finite 9], (0, zero_draws))"
    by simp
  from frame vk fin have vis: "activate_visible quiet_etl (layout 1 1 SOFTMAX GAUSSIAN) True
      True [Finite 1] [Finite 1] [Finite 8] [Finite 9] [Finite 0] [[Finite 1]]
      (0, zero_draws) = Inr ([Finite 8], [Finite 9], (0, zero_draws))"
    by simp
  show ?thesis by (rule conjI [OF hk conjI [OF vk conjI [OF hid vis]]])
qed

subsection \<open>Inference facade\<close>

text \<open>
  Claim C1, as stated: \<open>activation_probabilities\<close> runs the hidden step with
  \<open>computeSample = false\<close> and computes no hidden sample. It fails: the call names no
  flags, both default to \<open>true\<close>, and the step samples into the static buffer. On a
  model with one binary hidden unit the buffer held 0 before the call and holds the
  sample 1 after it, and the engine has advanced by one draw; the step with
  \<open>P = true\<close>, \<open>S = false\<close> leaves both as they were.
\<close>

theorem activation_probabilities_not_prob_only:
  "activation_probabilities quiet_etl (layout 1 1 BINARY BINARY) (unit_rbm 0) Finite [1]
     [Finite 0] [Finite 0] (0, zero_draws) =
     Inr ([Finite (1 / 2)], [Finite 1], (1, zero_draws)) \<and>
   activate_hidden_member quiet_etl (layout 1 1 BINARY BINARY) (unit_rbm 0) True False
     [Finite 0] [Finite 0] [Finite 1] [Finite 1] (0, zero_draws) =
     Inr ([Finite (1 / 2)], [Finite 0], (0, zero_draws)) \<and>
   activation_probabilities quiet_etl (layout 1 1 BINARY BINARY) (unit_rbm 0) Finite [1]
     [Finite 0] [Finite 0] (0, zero_draws) \<noteq>
   activate_hidden_member quiet_etl (layout 1 1 BINARY BINARY) (unit_rbm 0) True False
     [Finite 0] [Finite 0] [Finite 1] [Finite 1] (0, zero_draws)"
  by (simp add: activation_probabilities_def activate_hidden_member_def activate_hidden_def
      reference_eval logistic_def)

text \<open>
  Claim C1, amended. \<open>activation_probabilities\<close> runs the hidden step with both flags
  at their default \<open>true\<close>, on the input taken as the visible activation. Whenever it
  returns:
  \<^item> its outcome is that of the step with \<open>P = S = true\<close>;
  \<^item> the vector it returns is the hidden activation that the step with \<open>P = true\<close>,
    \<open>S = false\<close> computes from the same input, for any visible sample argument and any
    finite sample buffer;
  \<^item> the static buffer holds the hidden sample drawn from that activation by the
    sampler of the hidden unit kind, and the engine is the one that sampler leaves
    behind: \<open>bernoulli\<close> for BINARY, \<open>logistic_noise\<close> for RELU, \<open>ranged_noise\<close> with
    limit 6 or 1 for RELU6 or RELU1, \<open>one_if_max\<close> (no draw) for SOFTMAX. Only for a kind
    without a branch are the buffer and the engine left as they were.
\<close>

theorem activation_probabilities_samples_too:
  assumes "activation_probabilities E d m conv item_data result next_s g = Inr (res, ns, g')"
    and "list_all (isfinite E) ns0"
  shows "activate_hidden_member E d m True True result next_s (map conv item_data)
      (map conv item_data) g = Inr (res, ns, g') \<and>
    activate_hidden_member E d m True False result ns0 (map conv item_data) v_s g =
      Inr (res, ns0, g) \<and>
    (ns, g') =
      (if hidden_unit d = BINARY then bernoulli E g res
       else if hidden_unit d = RELU then logistic_noise E g res
       else if hidden_unit d = RELU6 then ranged_noise E g res 6
       else if hidden_unit d = RELU1 then ranged_noise E g res 1
       else if hidden_unit d = SOFTMAX then (one_if_max E res, g)
       else (next_s, g))"
  using assms
  unfolding activation_probabilities_def activate_hidden_member_def activate_hidden_def
    Let_def guard_outcome
  by (simp split: prod.splits if_splits)

theorem activation_probabilities_samples_too_witness:
  "activation_probabilities quiet_etl (layout 1 1 BINARY BINARY) (unit_rbm 0) Finite [1]
     [Finite 0] [Finite 0] (0, zero_draws) =
     Inr ([Finite (1 / 2)], [Finite 1], (1, zero_draws)) \<and>
   list_all (isfinite quiet_etl) [Finite 5] \<and>
   activate_hidden_member quiet_etl (layout 1 1 BINARY BINARY) (unit_rbm 0) True True
     [Finite 0] [Finite 0] (map Finite [1]) (map Finite [1]) (0, zero_draws) =
     Inr ([Finite (1 / 2)], [Finite 1], (1, zero_draws)) \<and>
   activate_hidden_member quiet_etl (layout 1 1 BINARY BINARY) (unit_rbm 0) True False
     [Finite 0] [Finite 5] (map Finite [1]) [NaN] (0, zero_draws) =
     Inr ([Finite (1 / 2)], [Finite 5], (0, zero_draws)) \<and>
   ([Finite 1], (1 :: nat, zero_draws)) =
     bernoulli quiet_etl (0, zero_draws) [Finite (1 / 2)]"
proof -
  have run: "activation_probabilities quiet_etl (layout 1 1 BINARY BINARY) (unit_rbm 0)
      Finite [1] [Finite 0] [Finite 0] (0, zero_draws) =
    Inr ([Finite (1 / 2)], [Finite 1], (1, zero_draws))"
    by (simp add: activation_probabilities_def activate_hidden_member_def activate_hidden_def
        reference_eval logistic_def)
  have buf: "list_all (isfinite quiet_etl) [Finite 5]"
    by (simp add: reference_eval)
  note all = activation_probabilities_samples_too [OF run buf, of "[NaN]"]
  note full = all [THEN conjunct1]
  note prob = all [THEN conjunct2, THEN conjunct1]
  have drawn: "([Finite 1], (1 :: nat, zero_draws)) =
      bernoulli quiet_etl (0, zero_draws) [Finite (1 / 2)]"
    using all [THEN conjunct2, THEN conjunct2] by (simp add: layout_def)
  show ?thesis
    by (rule conjI [OF run conjI [OF buf conjI [OF full conjI [OF prob drawn]]]])
qed

subsection \<open>Binary hidden units\<close>

text \<open>
  Claim C3. With a BINARY hidden unit and \<open>P = true\<close>, \<open>activate_hidden\<close> sets the
  hidden activation to the library's sigmoid of the pre-activation \<open>b + v_a \<cdot> w\<close>; on
  the reference instance that sigmoid is the logistic function \<open>1 / (1 + exp (- z))\<close>
  of each finite entry. The worked instance below has four visible and three hidden
  units, zero biases and a fixed weight matrix.
\<close>

theorem activate_hidden_binary_sigmoid:
  "(hidden_unit d = BINARY \<longrightarrow>
      activate_hidden E d True S h_a h_s v_a v_s b w g = Inr (a, s, g') \<longrightarrow>
      a = sigmoid E (plus_v E b (auto_vmmul_vm E v_a w))) \<and>
   sigmoid (reference_etl lnoise rnoise) (map Finite rs) =
     map (\<lambda>r. Finite (1 / (1 + exp (- r)))) rs"
  by (auto dest: hidden_activation_of simp: w_sigmoid_def logistic_def)

theorem activate_hidden_binary_sigmoid_witness:
  "hidden_unit (layout 4 3 BINARY BINARY) = BINARY \<and>
   activate_hidden quiet_etl (layout 4 3 BINARY BINARY) True False
     [Finite 0, Finite 0, Finite 0] [Finite 0, Finite 0, Finite 0]
     [Finite 1, Finite 0, Finite 1, Finite 1] [Finite 1, Finite 0, Finite 1, Finite 1]
     [Finite 0, Finite 0, Finite 0]
     [[Finite 1, Finite 0, Finite (- 1)], [Finite 0, Finite 1, Finite 0],
      [Finite 2, Finite 0, Finite 0], [Finite 0, Finite 0, Finite 1]] (0, zero_draws) =
     Inr ([Finite (1 / (1 + exp (- 3))), Finite (1 / 2), Finite (1 / 2)],
          [Finite 0, Finite 0, Finite 0], (0, zero_draws)) \<and>
   [Finite (1 / (1 + exp (- 3))), Finite (1 / 2), Finite (1 / 2)] =
     sigmoid quiet_etl (plus_v quiet_etl [Finite 0, Finite 0, Finite 0]
       (auto_vmmul_vm quiet_etl [Finite 1, Finite 0, Finite 1, Finite 1]
         [[Finite 1, Finite 0, Finite (- 1)], [Finite 0, Finite 1, Finite 0],
          [Finite 2, Finite 0, Finite 0], [Finite 0, Finite 0, Finite 1]]))"
proof -
  have kind: "hidden_unit (layout 4 3 BINARY BINARY) = BINARY"
    by (simp add: layout_def)
  have run: "activate_hidden quiet_etl (layout 4 3 BINARY BINARY) True False
      [Finite 0, Finite 0, Finite 0] [Finite 0, Finite 0, Finite 0]
      [Finite 1, Finite 0, Finite 1, Finite 1] [Finite 1, Finite 0, Finite 1, Finite 1]
      [Finite 0, Finite 0, Finite 0]
      [[Finite 1, Finite 0, Finite (- 1)], [Finite 0, Finite 1, Finite 0],
       [Finite 2, Finite 0, Finite 0], [Finite 0, Finite 0, Finite 1]] (0, zero_draws) =
    Inr ([Finite (1 / (1 + exp (- 3))), Finite (1 / 2), Finite (1 / 2)],
         [Finite 0, Finite 0, Finite 0], (0, zero_draws))"
    by (simp add: activate_hidden_def reference_eval logistic_def)
  note act = activate_hidden_binary_sigmoid [THEN conjunct1, rule_format, OF kind run]
  show ?thesis by (rule conjI [OF kind conjI [OF run act]])
qed

subsection \<open>Rectified hidden units\<close>

text \<open>
  Claim C7. Whatever the pre-activation \<open>z = b + v_a \<cdot> w\<close>, when \<open>activate_hidden\<close>
  returns with \<open>P = true\<close>: the RELU activation is \<open>max(z, 0)\<close> and every entry is at
  least 0; the RELU1 activation is \<open>clamp(max(z, 0), 0, 1)\<close> and every entry lies in
  \<open>[0, 1]\<close>; the RELU6 activation is \<open>clamp(max(z, 0), 0, 6)\<close> and every entry lies in
  \<open>[0, 6]\<close>.
\<close>

theorem activate_hidden_relu_ranges:
  assumes "activate_hidden (reference_etl lnoise rnoise) d True S h_a h_s v_a v_s b w g =
      Inr (a, s, g')"
  shows "(hidden_unit d = RELU \<longrightarrow>
       a = map (\<lambda>z. wmax z (Finite 0)) (w_plus_v b (w_vmmul_vm v_a w)) \<and>
       (\<forall>x\<in>set a. \<exists>r. x = Finite r \<and> 0 \<le> r)) \<and>
     (hidden_unit d = RELU1 \<longrightarrow>
       a = map (\<lambda>z. spec_clamp (wmax z (Finite 0)) 0 1) (w_plus_v b (w_vmmul_vm v_a w)) \<and>
       (\<forall>x\<in>set a. \<exists>r. x = Finite r \<and> 0 \<le> r \<and> r \<le> 1)) \<and>
     (hidden_unit d = RELU6 \<longrightarrow>
       a = map (\<lambda>z. spec_clamp (wmax z (Finite 0)) 0 6) (w_plus_v b (w_vmmul_vm v_a w)) \<and>
       (\<forall>x\<in>set a. \<exists>r. x = Finite r \<and> 0 \<le> r \<and> r \<le> 6))"
proof -
  note act = hidden_activation_of [OF assms]
  have fin: "list_all wfinite a"
    using activate_hidden_finite [OF assms] by simp
  have relu: "a = map (\<lambda>z. wmax z (Finite 0)) (w_plus_v b (w_vmmul_vm v_a w)) \<and>
      (\<forall>x\<in>set a. \<exists>r. x = Finite r \<and> 0 \<le> r)" if "hidden_unit d = RELU"
  proof
    show eq: "a = map (\<lambda>z. wmax z (Finite 0)) (w_plus_v b (w_vmmul_vm v_a w))"
      using act that by (simp add: w_max_v_def)
    show "\<forall>x\<in>set a. \<exists>r. x = Finite r \<and> 0 \<le> r"
    proof
      fix x assume x: "x \<in> set a"
      then obtain y where "x = wmax y (Finite 0)" using eq by auto
      moreover have "wfinite x" using fin x by (simp add: list_all_iff)
      ultimately show "\<exists>r. x = Finite r \<and> 0 \<le> r" using relu_range by simp
    qed
  qed
  have bounded:
    "a = map (\<lambda>z. spec_clamp (wmax z (Finite 0)) 0 hi) (w_plus_v b (w_vmmul_vm v_a w)) \<and>
      (\<forall>x\<in>set a. \<exists>r. x = Finite r \<and> 0 \<le> r \<and> r \<le> hi)"
    if eq: "a = w_min_v (w_max_v (w_plus_v b (w_vmmul_vm v_a w)) 0) hi" and hi: "0 \<le> hi"
    for hi
  proof
    show "a = map (\<lambda>z. spec_clamp (wmax z (Finite 0)) 0 hi) (w_plus_v b (w_vmmul_vm v_a w))"
      using eq by (simp add: w_max_v_def w_min_v_def relu_clamp)
    show "\<forall>x\<in>set a. \<exists>r. x = Finite r \<and> 0 \<le> r \<and> r \<le> hi"
    proof
      fix x assume x: "x \<in> set a"
      then obtain y where "x = wmin (wmax y (Finite 0)) (Finite hi)"
        using eq by (auto simp: w_max_v_def w_min_v_def)
      moreover have "wfinite x" using fin x by (simp add: list_all_iff)
      ultimately show "\<exists>r. x = Finite r \<and> 0 \<le> r \<and> r \<le> hi"
        using relu_bounded_range [OF hi] by simp
    qed
  qed
  have r1: "hidden_unit d = RELU1 \<Longrightarrow>
      a = w_min_v (w_max_v (w_plus_v b (w_vmmul_vm v_a w)) 0) 1"
    using act by simp
  have r6: "hidden_unit d = RELU6 \<Longrightarrow>
      a = w_min_v (w_max_v (w_plus_v b (w_vmmul_vm v_a w)) 0) 6"
    using act by simp
  show ?thesis using relu bounded [OF r1] bounded [OF r6] by simp
qed

theorem activate_hidden_relu_ranges_witness:
  "activate_hidden quiet_etl (layout 1 3 BINARY RELU) True False
     [Finite 0, Finite 0, Finite 0] [Finite 0, Finite 0, Finite 0] [Finite 1] [Finite 1]
     [Finite 0, Finite 0, Finite 0] [[Finite (- 1), Finite 7, Finite (1 / 2)]]
     (0, zero_draws) =
     Inr ([Finite 0, Finite 7, Finite (1 / 2)], [Finite 0, Finite 0, Finite 0],
          (0, zero_draws)) \<and>
   activate_hidden quiet_etl (layout 1 3 BINARY RELU1) True False
     [Finite 0, Finite 0, Finite 0] [Finite 0, Finite 0, Finite 0] [Finite 1] [Finite 1]
     [Finite 0, Finite 0, Finite 0] [[Finite (- 1), Finite 7, Finite (1 / 2)]]
     (0, zero_draws) =
     Inr ([Finite 0, Finite 1, Finite (1 / 2)], [Finite 0, Finite 0, Finite 0],
          (0, zero_draws)) \<and>
   activate_hidden quiet_etl (layout 1 3 BINARY RELU6) True False
     [Finite 0, Finite 0, Finite 0] [Finite 0, Finite 0, Finite 0] [Finite 1] [Finite 1]
     [Finite 0, Finite 0, Finite 0] [[Finite (- 1), Finite 7, Finite (1 / 2)]]
     (0, zero_draws) =
     Inr ([Finite 0, Finite 6, Finite (1 / 2)], [Finite 0, Finite 0, Finite 0],
          (0, zero_draws)) \<and>
   [Finite 0, Finite 7, Finite (1 / 2)] =
     map (\<lambda>z. wmax z (Finite 0))
       (w_plus_v [Finite 0, Finite 0, Finite 0]
         (w_vmmul_vm [Finite 1] [[Finite (- 1), Finite 7, Finite (1 / 2)]])) \<and>
   [Finite 0, Finite 1, Finite (1 / 2)] =
     map (\<lambda>z. spec_clamp (wmax z (Finite 0)) 0 1)
       (w_plus_v [Finite 0, Finite 0, Finite 0]
         (w_vmmul_vm [Finite 1] [[Finite (- 1), Finite 7, Finite (1 / 2)]])) \<and>
   [Finite 0, Finite 6, Finite (1 / 2)] =
     map (\<lambda>z. spec_clamp (wmax z (Finite 0)) 0 6)
       (w_plus_v [Finite 0, Finite 0, Finite 0]
         (w_vmmul_vm [Finite 1] [[Finite (- 1), Finite 7, Finite (1 / 2)]]))"
proof -
  have k0: "hidden_unit (layout 1 3 BINARY RELU) = RELU"
    and k1: "hidden_unit (layout 1 3 BINARY RELU1) = RELU1"
    and k6: "hidden_unit (layout 1 3 BINARY RELU6) = RELU6"
    by (simp_all add: layout_def)
  have run0: "activate_hidden quiet_etl (layout 1 3 BINARY RELU) True False
      [Finite 0, Finite 0, Finite 0] [Finite 0, Finite 0, Finite 0] [Finite 1] [Finite 1]
      [Finite 0, Finite 0, Finite 0] [[Finite (- 1), Finite 7, Finite (1 / 2)]]
      (0, zero_draws) =
    Inr ([Finite 0, Finite 7, Finite (1 / 2)], [Finite 0, Finite 0, Finite 0],
         (0, zero_draws))"
    by (simp add: activate_hidden_def reference_eval)
  have run1: "activate_hidden quiet_etl (layout 1 3 BINARY RELU1) True False
      [Finite 0, Finite 0, Finite 0] [Finite 0, Finite 0, Finite 0] [Finite 1] [Finite 1]
      [Finite 0, Finite 0, Finite 0] [[Finite (- 1), Finite 7, Finite (1 / 2)]]
      (0, zero_draws) =
    Inr ([Finite 0, Finite 1, Finite (1 / 2)], [Finite 0, Finite 0, Finite 0],
         (0, zero_draws))"
    by (simp add: activate_hidden_def reference_eval)
  have run6: "activate_hidden quiet_etl (layout 1 3 BINARY RELU6) True False
      [Finite 0, Finite 0, Finite 0] [Finite 0, Finite 0, Finite 0] [Finite 1] [Finite 1]
      [Finite 0, Finite 0, Finite 0] [[Finite (- 1), Finite 7, Finite (1 / 2)]]
      (0, zero_draws) =
    Inr ([Finite 0, Finite 6, Finite (1 / 2)], [Finite 0, Finite 0, Finite 0],
         (0, zero_draws))"
    by (simp add: activate_hidden_def reference_eval)
  note eq0 = activate_hidden_relu_ranges [OF run0 [unfolded quiet_etl_def], THEN conjunct1,
      rule_format, OF k0, THEN conjunct1]
  note eq1 = activate_hidden_relu_ranges [OF run1 [unfolded quiet_etl_def], THEN conjunct2,
      THEN conjunct1, rule_format, OF k1, THEN conjunct1]
  note eq6 = activate_hidden_relu_ranges [OF run6 [unfolded quiet_etl_def], THEN conjunct2,
      THEN conjunct2, rule_format, OF k6, THEN conjunct1]
  show ?thesis
    by (rule conjI [OF run0 conjI [OF run1 conjI [OF run6 conjI [OF eq0 conjI [OF eq1 eq6]]]]])
qed

subsection \<open>Softmax hidden units\<close>

text \<open>
  Claim C6. With a SOFTMAX hidden unit and a finite pre-activation \<open>z = b + v_a \<cdot> w\<close>
  over a hidden layer with at least one unit, \<open>activate_hidden\<close> returns; the hidden
  activation it produces is finite and sums to 1, and the hidden sample is one-hot:
  a 1 at one index \<open>k\<close>, where the activation is maximal, and 0 everywhere else.
\<close>

theorem activate_hidden_softmax:
  assumes "hidden_unit d = SOFTMAX"
    and "w_plus_v b (w_vmmul_vm v_a w) = map Finite zs"
    and "zs \<noteq> []"
  shows "\<exists>ps k.
      activate_hidden (reference_etl lnoise rnoise) d True True h_a h_s v_a v_s b w g =
        Inr (map Finite ps, (replicate (length zs) (Finite 0))[k := Finite 1], g) \<and>
      length ps = length zs \<and> sum_list ps = 1 \<and> k < length zs \<and>
      (\<forall>j < length zs. ps ! j \<le> ps ! k)"
proof -
  let ?ps = "softmax_real zs"
  have len: "length ?ps = length zs" by (simp add: softmax_real_def)
  then have ne: "?ps \<noteq> []" using assms(3) by auto
  obtain k where k: "k < length ?ps"
    and hot: "w_one_if_max (map Finite ?ps) = (replicate (length ?ps) (Finite 0))[k := Finite 1]"
    and top: "\<forall>j < length ?ps. ?ps ! j \<le> ?ps ! k"
    using w_one_if_max_Finite [OF ne] by blast
  have run: "activate_hidden (reference_etl lnoise rnoise) d True True h_a h_s v_a v_s b w g =
      Inr (map Finite ?ps, (replicate (length zs) (Finite 0))[k := Finite 1], g)"
    unfolding activate_hidden_def Let_def guard_outcome
    using assms(1)
    by (simp add: assms(2) w_softmax_Finite [OF assms(3)] hot len wfinite_one_hot
        wfinite_map_Finite)
  show ?thesis
    using run len sum_list_softmax_real [OF assms(3)] k top by auto
qed

theorem activate_hidden_softmax_witness:
  "hidden_unit (layout 1 2 BINARY SOFTMAX) = SOFTMAX \<and>
   w_plus_v [Finite 0, Finite 0] (w_vmmul_vm [Finite 1] [[Finite 3, Finite 3]]) =
     map Finite [3, 3] \<and>
   [3, 3 :: real] \<noteq> [] \<and>
   (\<exists>ps k.
      activate_hidden quiet_etl (layout 1 2 BINARY SOFTMAX) True True [NaN, NaN] [NaN, NaN]
        [Finite 1] [Finite 1] [Finite 0, Finite 0] [[Finite 3, Finite 3]] (0, zero_draws) =
        Inr (map Finite ps, (replicate (length [3, 3 :: real]) (Finite 0))[k := Finite 1],
             (0, zero_draws)) \<and>
      length ps = length [3, 3 :: real] \<and> sum_list ps = 1 \<and> k < length [3, 3 :: real] \<and>
      (\<forall>j < length [3, 3 :: real]. ps ! j \<le> ps ! k)) \<and>
   activate_hidden quiet_etl (layout 1 2 BINARY SOFTMAX) True True [NaN, NaN] [NaN, NaN]
     [Finite 1] [Finite 1] [Finite 0, Finite 0] [[Finite 3, Finite 3]] (0, zero_draws) =
     Inr ([Finite (1 / 2), Finite (1 / 2)], [Finite 1, Finite 0], (0, zero_draws))"
proof -
  have kind: "hidden_unit (layout 1 2 BINARY SOFTMAX) = SOFTMAX"
    by (simp add: layout_def)
  have pre: "w_plus_v [Finite 0, Finite 0] (w_vmmul_vm [Finite 1] [[Finite 3, Finite 3]]) =
      map Finite [3, 3]"
    by (simp add: reference_eval)
  have ne: "[3, 3 :: real] \<noteq> []" by simp
  note sm = activate_hidden_softmax [OF kind pre ne, of "\<lambda>g xs. (xs, g)" "\<lambda>g xs r. (xs, g)"
      "[NaN, NaN]" "[NaN, NaN]" "[Finite 1]" "(0, zero_draws)", folded quiet_etl_def]
  have soft: "w_softmax [Finite 3, Finite 3] = [Finite (1 / 2), Finite (1 / 2)]"
    by (simp add: w_softmax_def w_maximum_def wmax_def wsum_def Let_def)
  have hot: "w_one_if_max [Finite (1 / 2), Finite (1 / 2)] = [Finite 1, Finite 0]"
    by (simp add: w_one_if_max_def w_argmax_def w_maximum_def wmax_def upt_rec)
  have run: "activate_hidden quiet_etl (layout 1 2 BINARY SOFTMAX) True True [NaN, NaN]
      [NaN, NaN] [Finite 1] [Finite 1] [Finite 0, Finite 0] [[Finite 3, Finite 3]]
      (0, zero_draws) =
    Inr ([Finite (1 / 2), Finite (1 / 2)], [Finite 1, Finite 0], (0, zero_draws))"
    by (simp add: activate_hidden_def reference_eval soft hot)
  show ?thesis by (rule conjI [OF kind conjI [OF pre conjI [OF ne conjI [OF sm run]]]])
qed

end
